theory Spec2Isabelle
  imports Complex_Main "HOL-Library.Char_ord" "HOL-Library.List_Lexorder" "HOL-Library.Multiset"
begin

section \<open>Seasonal demand planning engine: numbers and table primitives\<close>

text \<open>
  The engine computes on pandas tables. A table is a list of rows in index order.
  Decimal values (prices, revenues, daily averages, the buffer, the percentage bands)
  are exact rationals; the same expression is read with the same arithmetic on the side
  of the code and on the side of the specification. In the sanitizer a number is what
  the numeric conversion reads, a rational. From the feature-engineered table on,
  quantities and counts are integers, as the sales schema declares them
  (\<^verbatim>\<open>quantity INTEGER NOT NULL\<close>).
\<close>

text \<open>Python's \<^verbatim>\<open>int(x)\<close> and pandas' \<^verbatim>\<open>astype(int)\<close>: truncation towards zero.\<close>

definition py_int :: "rat \<Rightarrow> int" where
  "py_int x = (if 0 \<le> x then \<lfloor>x\<rfloor> else \<lceil>x\<rceil>)"

text \<open>\<^verbatim>\<open>df.head(n)\<close> for \<open>n \<ge> 0\<close>, and the positional slices \<^verbatim>\<open>df.iloc[a:b]\<close>,
  \<^verbatim>\<open>df.iloc[a:]\<close> for bounds \<open>\<ge> 0\<close>: a bound beyond the end is clamped, nothing is raised.\<close>

definition head :: "'a list \<Rightarrow> nat \<Rightarrow> 'a list" where
  "head df n = take n df"

definition iloc :: "'a list \<Rightarrow> nat \<Rightarrow> nat \<Rightarrow> 'a list" where
  "iloc df a b = take (b - a) (drop a df)"

definition iloc_from :: "'a list \<Rightarrow> nat \<Rightarrow> 'a list" where
  "iloc_from df a = drop a df"

section \<open>Priority categorization\<close>

text \<open>A row of a tier: the recommendation row with the two columns added to the copy.\<close>

record 'a tiered =
  row :: 'a
  priority_level :: string
  action :: string

definition with_priority :: "string \<Rightarrow> string \<Rightarrow> 'a list \<Rightarrow> 'a tiered list" where
  "with_priority p a rows = map (\<lambda>r. \<lparr>row = r, priority_level = p, action = a\<rparr>) rows"

text \<open>The band size \<^verbatim>\<open>max(int(total_medicines * pct), 1)\<close>.\<close>

definition band_count :: "nat \<Rightarrow> rat \<Rightarrow> nat" where
  "band_count total_medicines pct = nat (max (py_int (of_nat total_medicines * pct)) 1)"

text \<open>\<^verbatim>\<open>categorize_medicines_by_priority\<close> of Engine.py. The result is a dict, in insertion
  order; the empty table gives the empty dict.\<close>

definition categorize_medicines_by_priority ::
  "'a list \<Rightarrow> (string \<times> 'a tiered list) list" where
  "categorize_medicines_by_priority recommendations_df =
    (if recommendations_df = [] then []
     else
       let total_medicines = length recommendations_df;
           priority_a_count = band_count total_medicines (20 / 100);
           priority_a = with_priority ''CRITICAL'' ''MUST ORDER IMMEDIATELY''
                          (head recommendations_df priority_a_count);
           priority_b_count = band_count total_medicines (30 / 100);
           priority_b = with_priority ''HIGH'' ''ORDER RECOMMENDED''
                          (iloc recommendations_df priority_a_count
                             (priority_a_count + priority_b_count));
           priority_c_count = band_count total_medicines (30 / 100);
           priority_c = with_priority ''MEDIUM'' ''ORDER IF BUDGET ALLOWS''
                          (iloc recommendations_df (priority_a_count + priority_b_count)
                             (priority_a_count + priority_b_count + priority_c_count));
           priority_d = with_priority ''LOW'' ''STOCK ON DEMAND''
                          (iloc_from recommendations_df
                             (priority_a_count + priority_b_count + priority_c_count))
       in [(''CRITICAL'', priority_a), (''HIGH'', priority_b),
           (''MEDIUM'', priority_c), (''LOW'', priority_d)])"

text \<open>The table \<^verbatim>\<open>PRIORITY_LEVELS\<close> of backend/config.py.\<close>

definition PRIORITY_LEVELS :: "(string \<times> rat) list" where
  "PRIORITY_LEVELS =
     [(''CRITICAL'', 20 / 100), (''HIGH'', 30 / 100), (''MEDIUM'', 30 / 100), (''LOW'', 20 / 100)]"

definition priority_pct :: "string \<Rightarrow> rat" where
  "priority_pct k = (case map_of PRIORITY_LEVELS k of Some p \<Rightarrow> p | None \<Rightarrow> 0)"

text \<open>\<^verbatim>\<open>RecommendationEngine.categorize_by_priority\<close> of backend/utils/analyzer.py.\<close>

definition categorize_by_priority :: "'a list \<Rightarrow> (string \<times> 'a tiered list) list" where
  "categorize_by_priority recommendations_df =
    (if recommendations_df = [] then []
     else
       let total_medicines = length recommendations_df;
           critical_count = band_count total_medicines (priority_pct ''CRITICAL'');
           critical_df = with_priority ''CRITICAL'' ''MUST ORDER IMMEDIATELY''
                           (head recommendations_df critical_count);
           high_count = band_count total_medicines (priority_pct ''HIGH'');
           high_df = with_priority ''HIGH'' ''ORDER RECOMMENDED''
                       (iloc recommendations_df critical_count (critical_count + high_count));
           medium_count = band_count total_medicines (priority_pct ''MEDIUM'');
           medium_df = with_priority ''MEDIUM'' ''ORDER IF BUDGET ALLOWS''
                         (iloc recommendations_df (critical_count + high_count)
                            (critical_count + high_count + medium_count));
           low_df = with_priority ''LOW'' ''STOCK ON DEMAND''
                      (iloc_from recommendations_df (critical_count + high_count + medium_count))
       in [(''CRITICAL'', critical_df), (''HIGH'', high_df),
           (''MEDIUM'', medium_df), (''LOW'', low_df)])"

text \<open>Reading a tier of the dict; a missing key is \<open>None\<close>.\<close>

definition tier :: "(string \<times> 'a tiered list) list \<Rightarrow> string \<Rightarrow> 'a list option" where
  "tier d k = map_option (map row) (map_of d k)"

text \<open>The tier labels carried by the rows of the dict, in dict order.\<close>

definition labels :: "(string \<times> 'a tiered list) list \<Rightarrow> string list" where
  "labels d = concat (map (\<lambda>(k, rows). map priority_level rows) d)"

text \<open>The four tiers of a dict partition a table when the dict has exactly the four keys in
  order, the tiers put end to end are the table (so each position of the table lies in
  one tier only, and the tiers are consecutive slices), the sizes add up, and every row
  carries the label of its tier.\<close>

definition is_partition :: "(string \<times> 'a tiered list) list \<Rightarrow> 'a list \<Rightarrow> bool" where
  "is_partition d df =
     (case (tier d ''CRITICAL'', tier d ''HIGH'', tier d ''MEDIUM'', tier d ''LOW'') of
        (Some cr, Some hi, Some me, Some lo) \<Rightarrow>
           map fst d = [''CRITICAL'', ''HIGH'', ''MEDIUM'', ''LOW''] \<and>
           cr @ hi @ me @ lo = df \<and>
           length cr + length hi + length me + length lo = length df \<and>
           labels d = replicate (length cr) ''CRITICAL'' @ replicate (length hi) ''HIGH''
                        @ replicate (length me) ''MEDIUM'' @ replicate (length lo) ''LOW''
      | _ \<Rightarrow> False)"

text \<open>A tier is inhabited when the dict has the key and at least one row under it.\<close>

definition inhabited :: "(string \<times> 'a tiered list) list \<Rightarrow> string \<Rightarrow> bool" where
  "inhabited d k = (case tier d k of None \<Rightarrow> False | Some rows \<Rightarrow> 1 \<le> length rows)"

definition all_tiers_inhabited :: "(string \<times> 'a tiered list) list \<Rightarrow> bool" where
  "all_tiers_inhabited d =
     (inhabited d ''CRITICAL'' \<and> inhabited d ''HIGH'' \<and> inhabited d ''MEDIUM'' \<and>
      inhabited d ''LOW'')"

section \<open>Calendar dates\<close>

text \<open>A timestamp of the \<^verbatim>\<open>date\<close> column at day resolution, and the day arithmetic of
  Python's \<^verbatim>\<open>datetime\<close>: the proleptic Gregorian ordinal (day 1 is 0001-01-01, a Monday).\<close>

record date =
  year :: int
  month :: int
  day :: int

definition is_leap :: "int \<Rightarrow> bool" where
  "is_leap y = (y mod 4 = 0 \<and> (y mod 100 \<noteq> 0 \<or> y mod 400 = 0))"

definition days_in_month :: "int \<Rightarrow> int \<Rightarrow> int" where
  "days_in_month y m =
     (if m = 2 then (if is_leap y then 29 else 28)
      else if m = 4 \<or> m = 6 \<or> m = 9 \<or> m = 11 then 30 else 31)"

definition days_before_year :: "int \<Rightarrow> int" where
  "days_before_year y = (y - 1) * 365 + (y - 1) div 4 - (y - 1) div 100 + (y - 1) div 400"

definition days_before_month :: "int \<Rightarrow> int \<Rightarrow> int" where
  "days_before_month y m = sum_list (map (days_in_month y) [1..m - 1])"

definition toordinal :: "date \<Rightarrow> int" where
  "toordinal d = days_before_year (year d) + days_before_month (year d) (month d) + day d"

text \<open>\<^verbatim>\<open>weekday()\<close>: Monday is 0.\<close>

definition weekday :: "date \<Rightarrow> int" where
  "weekday d = (toordinal d + 6) mod 7"

definition valid_date :: "date \<Rightarrow> bool" where
  "valid_date d = (1 \<le> year d \<and> year d \<le> 9999 \<and> 1 \<le> month d \<and> month d \<le> 12 \<and>
                   1 \<le> day d \<and> day d \<le> days_in_month (year d) (month d))"

text \<open>The season of a month number (\<^verbatim>\<open>get_season\<close>, Indian climate).\<close>

definition get_season :: "int \<Rightarrow> string" where
  "get_season m =
     (if m \<in> set [2, 3, 4, 5] then ''Summer''
      else if m \<in> set [6, 7, 8, 9] then ''Monsoon''
      else ''Winter'')"

section \<open>Row sanitizer\<close>

text \<open>A cell of a numeric column as the CSV reader hands it over: missing, a number, or text
  that the reader could not read as a number. A cell of a text column is a string or missing.\<close>

datatype cell = NaN | Num rat | Str string

record raw_row =
  csv_date :: "string option"
  csv_time :: "string option"
  csv_invoice_id :: "string option"
  csv_medicine_name :: "string option"
  csv_generic_name :: "string option"
  csv_prescription_required :: cell
  csv_quantity :: cell
  csv_unit_price :: cell

text \<open>The conversions of the table library, on one value: \<^verbatim>\<open>pd.to_datetime\<close> and
  \<^verbatim>\<open>pd.to_numeric\<close> with \<^verbatim>\<open>errors='coerce'\<close> give a missing value where the text cannot
  be read; \<^verbatim>\<open>astype(int)\<close> raises there. How text is read is the library's business:
  the three readers are parameters of the sanitizer.\<close>

record readers =
  read_datetime :: "string \<Rightarrow> date option"
  read_number :: "string \<Rightarrow> rat option"
  read_int :: "string \<Rightarrow> int option"

definition to_datetime :: "readers \<Rightarrow> string option \<Rightarrow> date option" where
  "to_datetime lib c = (case c of None \<Rightarrow> None | Some s \<Rightarrow> read_datetime lib s)"

definition to_numeric :: "readers \<Rightarrow> cell \<Rightarrow> rat option" where
  "to_numeric lib c = (case c of NaN \<Rightarrow> None | Num x \<Rightarrow> Some x | Str s \<Rightarrow> read_number lib s)"

datatype error = ValueError

definition astype_int :: "readers \<Rightarrow> cell \<Rightarrow> error + int" where
  "astype_int lib c =
     (case c of NaN \<Rightarrow> Inl ValueError
      | Num x \<Rightarrow> Inr (py_int x)
      | Str s \<Rightarrow> (case read_int lib s of None \<Rightarrow> Inl ValueError | Some i \<Rightarrow> Inr i))"

text \<open>Name standardization: \<^verbatim>\<open>.str.strip().str.upper().str.replace(r'\s+', ' ')\<close>,
  on byte strings.\<close>

definition is_space :: "char \<Rightarrow> bool" where
  "is_space c = (c \<in> set [CHR '' '', CHR 0x09, CHR 0x0A, CHR 0x0B, CHR 0x0C, CHR 0x0D])"

definition strip :: "string \<Rightarrow> string" where
  "strip s = rev (dropWhile is_space (rev (dropWhile is_space s)))"

definition upper_char :: "char \<Rightarrow> char" where
  "upper_char c =
     (if CHR ''a'' \<le> c \<and> c \<le> CHR ''z'' then char_of (of_char c - (32 :: nat)) else c)"

definition upper :: "string \<Rightarrow> string" where
  "upper s = map upper_char s"

function collapse_spaces :: "string \<Rightarrow> string" where
  "collapse_spaces [] = []"
| "collapse_spaces (c # cs) =
     (if is_space c then CHR '' '' # collapse_spaces (dropWhile is_space cs)
      else c # collapse_spaces cs)"
  by pat_completeness auto
termination
  by (relation "measure length") (auto simp: length_dropWhile_le less_Suc_eq_le)

definition standardize_name :: "string \<Rightarrow> string" where
  "standardize_name s = collapse_spaces (upper (strip s))"

text \<open>\<^verbatim>\<open>fillna('UNKNOWN')\<close> on a text column.\<close>

definition fillna :: "string \<Rightarrow> string option \<Rightarrow> string" where
  "fillna dflt c = (case c of None \<Rightarrow> dflt | Some s \<Rightarrow> s)"

text \<open>A row of the cleaned table. The date is missing (\<^verbatim>\<open>NaT\<close>) where the conversion
  of the text failed. The columns that the cleaning neither converts nor reads (brand,
  manufacturer, supplier, dosage form, strength, category) and the pasted \<^verbatim>\<open>datetime\<close>
  column are left out.\<close>

record clean_row =
  c_date :: "date option"
  c_time :: "string option"
  c_invoice_id :: "string option"
  c_medicine_name :: string
  c_generic_name :: "string option"
  c_prescription_required :: int
  c_quantity :: rat
  c_unit_price :: rat
  c_medicine_name_clean :: string
  c_generic_name_clean :: string
  c_total_sales :: rat

text \<open>The drops, on one row, in the order of the code:
  \<^verbatim>\<open>dropna(subset=['date', 'medicine_name', 'quantity', 'unit_price'])\<close> on the raw cells;
  the numeric conversion and \<^verbatim>\<open>dropna(subset=['quantity', 'unit_price'])\<close>; then
  \<^verbatim>\<open>quantity > 0\<close> and \<^verbatim>\<open>unit_price > 0\<close>. A row that survives gives its date text, its
  name and its two numbers. The date is converted between the first and the second drop,
  and no drop looks at the converted date.\<close>

definition retained :: "readers \<Rightarrow> raw_row \<Rightarrow> (string \<times> string \<times> rat \<times> rat) option" where
  "retained lib r =
     (case (csv_date r, csv_medicine_name r) of
        (Some d, Some n) \<Rightarrow>
          if csv_quantity r = NaN \<or> csv_unit_price r = NaN then None
          else (case (to_numeric lib (csv_quantity r), to_numeric lib (csv_unit_price r)) of
                  (Some q, Some p) \<Rightarrow>
                    if \<not> q > 0 then None else if \<not> p > 0 then None else Some (d, n, q, p)
                | _ \<Rightarrow> None)
      | _ \<Rightarrow> None)"

text \<open>The columns converted and added on a surviving row.\<close>

definition clean_one ::
  "readers \<Rightarrow> raw_row \<Rightarrow> string \<times> string \<times> rat \<times> rat \<Rightarrow> error + clean_row" where
  "clean_one lib r cells =
     (case cells of (d, n, q, p) \<Rightarrow>
        (case astype_int lib (csv_prescription_required r) of
           Inl e \<Rightarrow> Inl e
         | Inr rx \<Rightarrow>
             Inr \<lparr>c_date = to_datetime lib (Some d),
                  c_time = csv_time r,
                  c_invoice_id = csv_invoice_id r,
                  c_medicine_name = n,
                  c_generic_name = csv_generic_name r,
                  c_prescription_required = rx,
                  c_quantity = q,
                  c_unit_price = p,
                  c_medicine_name_clean = standardize_name n,
                  c_generic_name_clean =
                    standardize_name (fillna ''UNKNOWN'' (csv_generic_name r)),
                  c_total_sales = q * p\<rparr>))"

text \<open>Collecting the rows; the first failing conversion aborts the whole call.\<close>

fun collect :: "(error + 'a) list \<Rightarrow> error + 'a list" where
  "collect [] = Inr []"
| "collect (x # xs) =
     (case x of Inl e \<Rightarrow> Inl e
      | Inr v \<Rightarrow> (case collect xs of Inl e \<Rightarrow> Inl e | Inr vs \<Rightarrow> Inr (v # vs)))"

text \<open>\<^verbatim>\<open>clean_data\<close> of Engine.py.\<close>

definition clean_data :: "readers \<Rightarrow> raw_row list \<Rightarrow> error + clean_row list" where
  "clean_data lib df =
     collect (concat (map (\<lambda>r. case retained lib r of None \<Rightarrow> []
                                 | Some cells \<Rightarrow> [clean_one lib r cells]) df))"

text \<open>Concrete readers, for evaluating the sanitizer on an input: dates in the format
  \<^verbatim>\<open>'%Y-%m-%d'\<close> of \<^verbatim>\<open>VALIDATION_RULES\<close>, numbers written as unsigned decimal integers.
  Text of any other shape is not read.\<close>

definition digit_val :: "char \<Rightarrow> int option" where
  "digit_val c =
     (if CHR ''0'' \<le> c \<and> c \<le> CHR ''9'' then Some (int (of_char c) - 48) else None)"

fun digits_val :: "int \<Rightarrow> string \<Rightarrow> int option" where
  "digits_val acc [] = Some acc"
| "digits_val acc (c # cs) =
     (case digit_val c of None \<Rightarrow> None | Some v \<Rightarrow> digits_val (10 * acc + v) cs)"

definition read_digits :: "string \<Rightarrow> int option" where
  "read_digits s = (if s = [] then None else digits_val 0 s)"

definition strptime_ymd :: "string \<Rightarrow> date option" where
  "strptime_ymd s =
     (if length s = 10 \<and> s ! 4 = CHR ''-'' \<and> s ! 7 = CHR ''-''
      then (case (read_digits (take 4 s), read_digits (take 2 (drop 5 s)), read_digits (drop 8 s)) of
              (Some y, Some m, Some d) \<Rightarrow>
                let dt = \<lparr>year = y, month = m, day = d\<rparr>
                in if valid_date dt then Some dt else None
            | _ \<Rightarrow> None)
      else None)"

definition plain_readers :: readers where
  "plain_readers =
     \<lparr>read_datetime = strptime_ymd,
      read_number = (\<lambda>s. map_option of_int (read_digits s)),
      read_int = read_digits\<rparr>"

section \<open>Seasonal aggregation and heuristic recommendations\<close>

text \<open>A row of the feature-engineered table, with the columns that the recommendation
  engine reads. Every row has a date and an integer quantity.\<close>

record sale =
  date :: date
  medicine_name_clean :: string
  invoice_id :: string
  quantity :: int
  unit_price :: rat
  total_sales :: rat
  Season :: string

text \<open>The columns of the recommendation table, in the order in which the code adds them:
  the aggregate columns, then the stock columns, then rank and fast-mover flag.\<close>

record aggregate =
  medicine_name :: string
  last_season_sales :: int
  total_revenue :: rat
  unique_orders :: nat
  avg_unit_price :: rat

record stocked = aggregate +
  suggested_stock_quantity :: int
  daily_avg_sales :: rat

record recommendation = stocked +
  rank :: nat
  is_fast_mover :: bool

text \<open>\<^verbatim>\<open>groupby('medicine_name_clean').agg({'quantity': 'sum', 'total_sales': 'sum',
  'invoice_id': 'nunique', 'unit_price': 'mean'}).reset_index()\<close>: one row per distinct key,
  the keys in ascending order.\<close>

definition group_keys :: "sale list \<Rightarrow> string list" where
  "group_keys season_data = sort (remdups (map medicine_name_clean season_data))"

definition group_of :: "sale list \<Rightarrow> string \<Rightarrow> sale list" where
  "group_of season_data k = filter (\<lambda>t. medicine_name_clean t = k) season_data"

definition mean :: "rat list \<Rightarrow> rat" where
  "mean xs = sum_list xs / of_nat (length xs)"

definition nunique :: "string list \<Rightarrow> nat" where
  "nunique xs = length (remdups xs)"

definition agg_group :: "string \<Rightarrow> sale list \<Rightarrow> aggregate" where
  "agg_group k g =
     \<lparr>medicine_name = k,
      last_season_sales = sum_list (map quantity g),
      total_revenue = sum_list (map total_sales g),
      unique_orders = nunique (map invoice_id g),
      avg_unit_price = mean (map unit_price g)\<rparr>"

definition groupby_agg :: "sale list \<Rightarrow> aggregate list" where
  "groupby_agg season_data =
     map (\<lambda>k. agg_group k (group_of season_data k)) (group_keys season_data)"

text \<open>\<^verbatim>\<open>(season_data['date'].max() - season_data['date'].min()).days\<close>, with 90 for 0.\<close>

definition day_span :: "sale list \<Rightarrow> int" where
  "day_span season_data =
     (case map (\<lambda>t. toordinal (date t)) season_data of
        [] \<Rightarrow> 0
      | d # ds \<Rightarrow> fold max ds d - fold min ds d)"

definition days_in_season_of :: "sale list \<Rightarrow> int" where
  "days_in_season_of season_data =
     (let days_in_season = day_span season_data
      in if days_in_season = 0 then 90 else days_in_season)"

text \<open>\<^verbatim>\<open>.round(2)\<close>: to two decimals, a half to the even neighbour.\<close>

definition round_half_even :: "rat \<Rightarrow> int" where
  "round_half_even x =
     (let f = \<lfloor>x\<rfloor>; d = x - of_int f
      in if d < 1 / 2 then f else if 1 / 2 < d then f + 1 else if even f then f else f + 1)"

definition round2 :: "rat \<Rightarrow> rat" where
  "round2 x = of_int (round_half_even (x * 100)) / 100"

text \<open>The stock columns of one row:
  \<^verbatim>\<open>(last_season_sales * (1 + buffer)).astype(int)\<close> and
  \<^verbatim>\<open>(last_season_sales / days_in_season).round(2)\<close>.\<close>

definition add_stock :: "rat \<Rightarrow> int \<Rightarrow> aggregate \<Rightarrow> stocked" where
  "add_stock buffer days_in_season a =
     \<lparr>medicine_name = medicine_name a,
      last_season_sales = last_season_sales a,
      total_revenue = total_revenue a,
      unique_orders = unique_orders a,
      avg_unit_price = avg_unit_price a,
      suggested_stock_quantity = py_int (of_int (last_season_sales a) * (1 + buffer)),
      daily_avg_sales = round2 (of_int (last_season_sales a) / of_int days_in_season)\<rparr>"

text \<open>\<^verbatim>\<open>sort_values('last_season_sales', ascending=False).reset_index(drop=True)\<close>:
  rows in descending order of the key, rows of equal key in their previous order.\<close>

definition sort_values_desc :: "('a \<Rightarrow> int) \<Rightarrow> 'a list \<Rightarrow> 'a list" where
  "sort_values_desc key df = sort_key (\<lambda>r. - key r) df"

text \<open>\<^verbatim>\<open>Series.quantile(q)\<close> with linear interpolation between the two order statistics
  around position \<open>(n - 1) * q\<close>; the empty series has none (\<^verbatim>\<open>NaN\<close>). The engine calls it
  with \<open>q = 0.75\<close>.\<close>

definition quantile :: "rat list \<Rightarrow> rat \<Rightarrow> rat option" where
  "quantile vs q =
     (if vs = [] then None
      else
        let s = sort vs; n = length s;
            h = of_nat (n - 1) * q;
            i = min (nat \<lfloor>h\<rfloor>) (n - 1);
            j = min (i + 1) (n - 1);
            g = h - of_int \<lfloor>h\<rfloor>
        in Some (s ! i + (s ! j - s ! i) * g))"

text \<open>A comparison with a missing threshold is false.\<close>

definition ge_threshold :: "rat \<Rightarrow> rat option \<Rightarrow> bool" where
  "ge_threshold v t = (case t of None \<Rightarrow> False | Some x \<Rightarrow> v \<ge> x)"

text \<open>The rank column \<^verbatim>\<open>range(1, len(recommendations) + 1)\<close> and the fast-mover column.\<close>

definition add_rank_and_flag :: "rat \<Rightarrow> stocked list \<Rightarrow> recommendation list" where
  "add_rank_and_flag q df =
     (let fast_mover_threshold = quantile (map daily_avg_sales df) q
      in map (\<lambda>(k, s).
            \<lparr>medicine_name = medicine_name s,
             last_season_sales = last_season_sales s,
             total_revenue = total_revenue s,
             unique_orders = unique_orders s,
             avg_unit_price = avg_unit_price s,
             suggested_stock_quantity = suggested_stock_quantity s,
             daily_avg_sales = daily_avg_sales s,
             rank = k,
             is_fast_mover = ge_threshold (daily_avg_sales s) fast_mover_threshold\<rparr>)
           (zip [1..<length df + 1] df))"

text \<open>\<^verbatim>\<open>get_heuristic_recommendations\<close> of Engine.py. A season without rows gives the
  empty table.\<close>

definition get_heuristic_recommendations ::
  "sale list \<Rightarrow> string \<Rightarrow> rat \<Rightarrow> recommendation list" where
  "get_heuristic_recommendations df target_season buffer =
     (let season_data = filter (\<lambda>t. Season t = target_season) df
      in if season_data = [] then []
         else
           let recommendations = groupby_agg season_data;
               days_in_season = days_in_season_of season_data;
               recommendations = map (add_stock buffer days_in_season) recommendations;
               recommendations = sort_values_desc last_season_sales recommendations
           in add_rank_and_flag (75 / 100) recommendations)"

text \<open>The default buffer of the signature, \<^verbatim>\<open>buffer=0.15\<close>.\<close>

definition default_buffer :: rat where
  "default_buffer = 15 / 100"

text \<open>\<^verbatim>\<open>SeasonalAnalysisEngine.get_seasonal_recommendations\<close> of
  backend/utils/analysis_engine.py: the same table, then a priority column, a summary, the
  first ten rows and the first ten fast movers (the key \<^verbatim>\<open>'fast_movers'\<close> of the result).
  \<^verbatim>\<open>.loc[a:b, 'priority']\<close> assigns on the labels \<open>a\<close> to \<open>b\<close>, both included, where they
  exist; the later assignment wins.\<close>

record prioritized = recommendation +
  priority :: string

record summary =
  total_medicines :: int
  critical_count :: int
  high_count :: int
  medium_count :: int
  low_count :: int
  fast_movers :: int
  total_investment :: rat
  total_units :: int

record seasonal_result =
  recommendations :: "prioritized list"
  summary :: summary
  top_10 :: "prioritized list"
  fast_mover_rows :: "prioritized list"

definition priority_at :: "nat \<Rightarrow> nat \<Rightarrow> nat \<Rightarrow> nat \<Rightarrow> string" where
  "priority_at critical high medium i =
     (if critical + high \<le> i \<and> i < critical + high + medium then ''MEDIUM''
      else if critical \<le> i \<and> i < critical + high then ''HIGH''
      else if i < critical then ''CRITICAL''
      else ''LOW'')"

definition add_priority :: "string \<Rightarrow> recommendation \<Rightarrow> prioritized" where
  "add_priority p r =
     \<lparr>medicine_name = medicine_name r,
      last_season_sales = last_season_sales r,
      total_revenue = total_revenue r,
      unique_orders = unique_orders r,
      avg_unit_price = avg_unit_price r,
      suggested_stock_quantity = suggested_stock_quantity r,
      daily_avg_sales = daily_avg_sales r,
      rank = rank r,
      is_fast_mover = is_fast_mover r,
      priority = p\<rparr>"

definition get_seasonal_recommendations ::
  "sale list \<Rightarrow> string \<Rightarrow> rat \<Rightarrow> seasonal_result option" where
  "get_seasonal_recommendations df target_season buffer =
     (let season_data = filter (\<lambda>t. Season t = target_season) df
      in if df = [] \<or> season_data = [] then None
         else
           let recs = groupby_agg season_data;
               days_in_season = days_in_season_of season_data;
               recs = map (add_stock buffer days_in_season) recs;
               recs = sort_values_desc last_season_sales recs;
               recs = add_rank_and_flag (75 / 100) recs;
               total = length recs;
               critical = band_count total (20 / 100);
               high = band_count total (30 / 100);
               medium = band_count total (30 / 100);
               rows = map (\<lambda>(i, r). add_priority (priority_at critical high medium i) r)
                        (zip [0..<total] recs)
           in Some \<lparr>recommendations = rows,
                    summary = \<lparr>total_medicines = int total,
                                critical_count = int critical,
                                high_count = int high,
                                medium_count = int medium,
                                low_count = int total - int critical - int high - int medium,
                                fast_movers = int (length (filter is_fast_mover recs)),
                                total_investment = sum_list (map total_revenue recs),
                                total_units = sum_list (map suggested_stock_quantity recs)\<rparr>,
                    top_10 = head rows 10,
                    fast_mover_rows = head (filter is_fast_mover rows) 10\<rparr>)"

text \<open>The rows under the key \<^verbatim>\<open>'recommendations'\<close> of its result; none for the empty dict.\<close>

definition seasonal_rows :: "sale list \<Rightarrow> string \<Rightarrow> rat \<Rightarrow> prioritized list" where
  "seasonal_rows df target_season buffer =
     (case get_seasonal_recommendations df target_season buffer of
        None \<Rightarrow> []
      | Some res \<Rightarrow> recommendations res)"




text \<open>The example scenario of the specification (two sales of PARA 500 in March 2023),
  with two sales of a second medicine, one of them in another season.\<close>

definition example_sales :: "sale list" where
  "example_sales =
     [\<lparr>date = \<lparr>year = 2023, month = 3, day = 1\<rparr>, medicine_name_clean = ''PARA 500'',
       invoice_id = ''INV1'', quantity = 10, unit_price = 5, total_sales = 50,
       Season = ''Summer''\<rparr>,
      \<lparr>date = \<lparr>year = 2023, month = 3, day = 15\<rparr>, medicine_name_clean = ''PARA 500'',
       invoice_id = ''INV2'', quantity = 20, unit_price = 5, total_sales = 100,
       Season = ''Summer''\<rparr>,
      \<lparr>date = \<lparr>year = 2023, month = 3, day = 15\<rparr>, medicine_name_clean = ''ASPIRIN'',
       invoice_id = ''INV2'', quantity = 40, unit_price = 2, total_sales = 80,
       Season = ''Summer''\<rparr>,
      \<lparr>date = \<lparr>year = 2023, month = 7, day = 15\<rparr>, medicine_name_clean = ''ASPIRIN'',
       invoice_id = ''INV3'', quantity = 30, unit_price = 2, total_sales = 60,
       Season = ''Monsoon''\<rparr>]"


section \<open>Score-based priority of the enhanced medicines view\<close>

text \<open>The table that \<^verbatim>\<open>get_enhanced_medicines\<close> of backend/utils/analysis_engine.py reads
  (columns \<^verbatim>\<open>medicine_name\<close>, \<^verbatim>\<open>quantity_sold\<close>, \<^verbatim>\<open>total_revenue\<close>, \<^verbatim>\<open>unit_price\<close>) and
  the dicts it returns.\<close>

record sold =
  e_medicine_name :: string
  e_quantity_sold :: int
  e_total_revenue :: rat
  e_unit_price :: rat

record enhanced =
  em_id :: nat
  em_name :: string
  em_category :: string
  em_priority :: string
  suggestedStock :: int
  estimatedCost :: int
  currentStock :: int
  stockStatus :: string

definition score_ge :: "rat option \<Rightarrow> rat \<Rightarrow> bool" where
  "score_ge score t = (case score of None \<Rightarrow> False | Some s \<Rightarrow> s \<ge> t)"

definition get_priority :: "rat option \<Rightarrow> string" where
  "get_priority score =
     (if score_ge score (8 / 10) then ''critical''
      else if score_ge score (6 / 10) then ''high''
      else if score_ge score (4 / 10) then ''medium''
      else ''low'')"

definition get_stock_status :: "int \<Rightarrow> int \<Rightarrow> string" where
  "get_stock_status current suggested =
     (if current = 0 then ''out''
      else if of_int current < (of_int suggested :: rat) * (2 / 10) then ''low''
      else ''adequate'')"

text \<open>The score \<^verbatim>\<open>total_revenue / max * 0.6 + quantity_sold / max * 0.4\<close>. A division by a
  zero maximum gives no finite number, and every comparison with it is false.\<close>

definition priority_score :: "rat \<Rightarrow> int \<Rightarrow> rat \<Rightarrow> int \<Rightarrow> rat option" where
  "priority_score max_revenue max_quantity revenue qty =
     (if max_revenue = 0 \<or> max_quantity = 0 then None
      else Some (revenue / max_revenue * (6 / 10) + of_int qty / of_int max_quantity * (4 / 10)))"

definition mock_medicines :: "enhanced list" where
  "mock_medicines =
     [\<lparr>em_id = 1, em_name = ''CROCIN COLD & FLU SYRUP'', em_category = ''Cold & Flu'',
       em_priority = ''critical'', suggestedStock = 450, estimatedCost = 13500,
       currentStock = 45, stockStatus = ''low''\<rparr>,
      \<lparr>em_id = 2, em_name = ''VICKS ACTION 500 SYRUP'', em_category = ''Cold & Flu'',
       em_priority = ''critical'', suggestedStock = 380, estimatedCost = 11400,
       currentStock = 32, stockStatus = ''low''\<rparr>,
      \<lparr>em_id = 3, em_name = ''TIXYLIX COUGH SYRUP'', em_category = ''Cough'',
       em_priority = ''high'', suggestedStock = 320, estimatedCost = 9600,
       currentStock = 28, stockStatus = ''low''\<rparr>,
      \<lparr>em_id = 4, em_name = ''PARACETAMOL 500MG'', em_category = ''Pain Relief'',
       em_priority = ''high'', suggestedStock = 500, estimatedCost = 2500,
       currentStock = 150, stockStatus = ''adequate''\<rparr>,
      \<lparr>em_id = 5, em_name = ''CETIRIZINE 10MG'', em_category = ''Antihistamine'',
       em_priority = ''medium'', suggestedStock = 300, estimatedCost = 1500,
       currentStock = 75, stockStatus = ''adequate''\<rparr>]"

text \<open>The grouped table: one row per medicine name (ascending), with the sums and the mean.\<close>

definition group_sold :: "sold list \<Rightarrow> sold list" where
  "group_sold df =
     map (\<lambda>k. let g = filter (\<lambda>r. e_medicine_name r = k) df
              in \<lparr>e_medicine_name = k,
                  e_quantity_sold = sum_list (map e_quantity_sold g),
                  e_total_revenue = sum_list (map e_total_revenue g),
                  e_unit_price = mean (map e_unit_price g)\<rparr>)
         (sort (remdups (map e_medicine_name df)))"

definition max_of :: "('a :: linorder) list \<Rightarrow> 'a \<Rightarrow> 'a" where
  "max_of xs dflt = (case xs of [] \<Rightarrow> dflt | x # rest \<Rightarrow> fold max rest x)"

definition get_enhanced_medicines :: "sold list \<Rightarrow> enhanced list" where
  "get_enhanced_medicines df =
     (if df = [] then mock_medicines
      else
        let top_medicines = group_sold df;
            max_revenue = max_of (map e_total_revenue top_medicines) 0;
            max_quantity = max_of (map e_quantity_sold top_medicines) 0
        in map (\<lambda>(idx, r).
                  let score = priority_score max_revenue max_quantity
                                (e_total_revenue r) (e_quantity_sold r);
                      suggested_stock = py_int (of_int (e_quantity_sold r) * (15 / 10));
                      estimated_cost = py_int (of_int suggested_stock * e_unit_price r);
                      current_stock = py_int (of_int (e_quantity_sold r) * (3 / 10))
                  in \<lparr>em_id = idx + 1,
                      em_name = e_medicine_name r,
                      em_category = ''General Medicine'',
                      em_priority = get_priority score,
                      suggestedStock = suggested_stock,
                      estimatedCost = estimated_cost,
                      currentStock = current_stock,
                      stockStatus = get_stock_status current_stock suggested_stock\<rparr>)
               (take 20 (zip [0..<length top_medicines] top_medicines)))"

text \<open>The tier that each algorithm gives to a medicine name: the \<^verbatim>\<open>priority_level\<close> of its
  row in the rank-sliced dict, and the \<^verbatim>\<open>priority\<close> of its dict in the score-based list.
  The two algorithms write the same four words in different letter case.\<close>

definition rank_priority_of ::
  "(string \<times> ('a aggregate_scheme) tiered list) list \<Rightarrow> string \<Rightarrow> string option" where
  "rank_priority_of d m =
     map_of (concat (map (\<lambda>(k, rows). map (\<lambda>t. (medicine_name (row t), priority_level t)) rows) d)) m"

definition score_priority_of :: "enhanced list \<Rightarrow> string \<Rightarrow> string option" where
  "score_priority_of out m = map_option upper (map_of (map (\<lambda>e. (em_name e, em_priority e)) out) m)"

text \<open>The rows of a recommendation table as the score-based view reads them.\<close>

definition as_sold :: "('a aggregate_scheme) list \<Rightarrow> sold list" where
  "as_sold recs =
     map (\<lambda>r. \<lparr>e_medicine_name = medicine_name r,
                e_quantity_sold = last_season_sales r,
                e_total_revenue = total_revenue r,
                e_unit_price = avg_unit_price r\<rparr>) recs"

section \<open>Forecasting orchestrator\<close>

text \<open>\<^verbatim>\<open>resample('W-Mon').sum()\<close> on a dated quantity series: weeks end on a Monday, a
  Monday belongs to the week that it ends, and every week between the first and the last
  is a point of the result, with sum 0 where it has no row. A point is the ordinal of the
  closing Monday and the sum.\<close>

definition week_label :: "date \<Rightarrow> int" where
  "week_label d = toordinal d + (7 - weekday d) mod 7"

definition resample_W_Mon_sum :: "(date \<times> int) list \<Rightarrow> (int \<times> int) list" where
  "resample_W_Mon_sum series =
     (case map (\<lambda>(d, q). week_label d) series of
        [] \<Rightarrow> []
      | l # ls \<Rightarrow>
          let lo = fold min ls l; hi = fold max ls l
          in map (\<lambda>k. let w = lo + 7 * int k
                      in (w, sum_list (map snd (filter (\<lambda>(d, q). week_label d = w) series))))
                 [0..<nat ((hi - lo) div 7) + 1])"

text \<open>The two model libraries. A call fits the model on a series and forecasts the given
  number of steps; it gives the forecast, or raises an exception, of which the message is
  kept. \<^verbatim>\<open>FORECASTING_AVAILABLE\<close> tells whether the libraries could be imported.\<close>

record ('f, 'p) libraries =
  FORECASTING_AVAILABLE :: bool
  SARIMAX :: "(int \<times> int) list \<Rightarrow> nat \<Rightarrow> string + 'f"
  Prophet :: "(date \<times> int) list \<Rightarrow> nat \<Rightarrow> string + 'p"

text \<open>A result dict of backend/utils/forecast.py: \<^verbatim>\<open>{'success': True, ...}\<close> with the
  series of the forecast, or \<^verbatim>\<open>{'success': False, 'error': message, ...}\<close> with empty
  series.\<close>

datatype 'f outcome = Success 'f | Failure string

text \<open>\<^verbatim>\<open>try: body except Exception as e: handler(str(e))\<close>.\<close>

definition try_except :: "string + 'a \<Rightarrow> (string \<Rightarrow> 'a) \<Rightarrow> 'a" where
  "try_except body handler = (case body of Inl e \<Rightarrow> handler e | Inr v \<Rightarrow> v)"

text \<open>Decimal digits of a number, for the formatted messages.\<close>

fun str_nat :: "nat \<Rightarrow> string" where
  "str_nat n =
     (if n < 10 then [char_of (48 + n)] else str_nat (n div 10) @ [char_of (48 + n mod 10)])"

text \<open>\<^verbatim>\<open>prepare_time_series_data\<close>: quantities summed per date, dates ascending.\<close>

definition prepare_time_series_data :: "(date \<times> int) list \<Rightarrow> (date \<times> int) list" where
  "prepare_time_series_data sales_data =
     map (\<lambda>d. (d, sum_list (map snd (filter (\<lambda>(d', q). d' = d) sales_data))))
         (sort_key toordinal (remdups (map fst sales_data)))"

text \<open>\<^verbatim>\<open>ForecastingEngine.generate_sarima_forecast\<close>.\<close>

definition generate_sarima_forecast ::
  "('f, 'p) libraries \<Rightarrow> (date \<times> int) list \<Rightarrow> nat \<Rightarrow> 'f outcome" where
  "generate_sarima_forecast lib df forecast_weeks =
     (if \<not> FORECASTING_AVAILABLE lib \<or> df = [] \<or> length df < 24
      then Failure ''Insufficient data for SARIMA forecast (minimum 24 weeks required)''
      else
        try_except
          (let weekly_data = resample_W_Mon_sum df
           in if length weekly_data < 24
              then Inr (Failure (''Insufficient weekly data for SARIMA forecast (''
                                   @ str_nat (length weekly_data) @ '' weeks)''))
              else (case SARIMAX lib weekly_data forecast_weeks of
                      Inl e \<Rightarrow> Inl e
                    | Inr f \<Rightarrow> Inr (Success f)))
          (\<lambda>e. Failure (''SARIMA forecast failed: '' @ e)))"

text \<open>\<^verbatim>\<open>ForecastingEngine.generate_prophet_forecast\<close>.\<close>

definition generate_prophet_forecast ::
  "('f, 'p) libraries \<Rightarrow> (date \<times> int) list \<Rightarrow> nat \<Rightarrow> 'p outcome" where
  "generate_prophet_forecast lib df forecast_months =
     (if \<not> FORECASTING_AVAILABLE lib \<or> df = [] \<or> length df < 30
      then Failure ''Insufficient data for Prophet forecast (minimum 30 days required)''
      else
        try_except
          (case Prophet lib df (forecast_months * 30) of
             Inl e \<Rightarrow> Inl e
           | Inr f \<Rightarrow> Inr (Success f))
          (\<lambda>e. Failure (''Prophet forecast failed: '' @ e)))"

text \<open>\<^verbatim>\<open>ForecastingEngine.process_medicine_forecasts\<close>: both forecasts for one medicine,
  with the default horizons of 12 weeks and 3 months.\<close>

record ('f, 'p) medicine_forecasts =
  mf_medicine_id :: int
  mf_medicine_name :: string
  mf_total_quantity :: int
  sales_trends :: "(int \<times> int) list"
  sarima_forecast :: "'f outcome"
  prophet_forecast :: "'p outcome"

definition process_medicine_forecasts ::
  "('f, 'p) libraries \<Rightarrow> int \<Rightarrow> string \<Rightarrow> (date \<times> int) list \<Rightarrow> ('f, 'p) medicine_forecasts"
  where
  "process_medicine_forecasts lib medicine_id name sales_data =
     (let df = prepare_time_series_data sales_data
      in if df = []
         then \<lparr>mf_medicine_id = medicine_id, mf_medicine_name = name, mf_total_quantity = 0,
               sales_trends = [],
               sarima_forecast = Failure ''No sales data available'',
               prophet_forecast = Failure ''No sales data available''\<rparr>
         else \<lparr>mf_medicine_id = medicine_id, mf_medicine_name = name,
               mf_total_quantity = sum_list (map snd df),
               sales_trends = resample_W_Mon_sum df,
               sarima_forecast = generate_sarima_forecast lib df 12,
               prophet_forecast = generate_prophet_forecast lib df 3\<rparr>)"




definition monthly_sales :: "(date \<times> int) list" where
  "monthly_sales =
     concat (map (\<lambda>y. map (\<lambda>m. (\<lparr>year = y, month = m, day = 1\<rparr>, 5)) [1..12])
               [2021, 2022, 2023])"

definition example_libraries :: "(rat list, rat list) libraries" where
  "example_libraries =
     \<lparr>FORECASTING_AVAILABLE = True,
      SARIMAX = (\<lambda>series steps. Inl ''LU decomposition error.''),
      Prophet = (\<lambda>series periods. Inr (replicate periods 5))\<rparr>"

section \<open>Properties of the priority categorization\<close>

lemma band_count_pos: "1 \<le> band_count n p"
  by (simp add: band_count_def)

lemma band_count_20: "band_count n (20 / 100) = max (n div 5) 1"
proof -
  have "(of_nat n * (20 / 100) :: rat) = of_int (int n) / of_int 5" by simp
  then have "\<lfloor>of_nat n * (20 / 100) :: rat\<rfloor> = int n div 5"
    by (simp only: floor_divide_of_int_eq)
  moreover have "int n div 5 = int (n div 5)" by simp
  ultimately show ?thesis
    by (simp add: band_count_def py_int_def max_def)
qed

lemma band_count_30: "band_count n (30 / 100) = max (3 * n div 10) 1"
proof -
  have "(of_nat n * (30 / 100) :: rat) = of_int (3 * int n) / of_int 10" by simp
  then have "\<lfloor>of_nat n * (30 / 100) :: rat\<rfloor> = (3 * int n) div 10"
    by (simp only: floor_divide_of_int_eq)
  moreover have "(3 * int n) div 10 = int (3 * n div 10)" by simp
  ultimately show ?thesis
    by (simp add: band_count_def py_int_def max_def)
qed

lemma slices_append:
  "head xs a @ iloc xs a (a + b) @ iloc xs (a + b) (a + b + c) @ iloc_from xs (a + b + c) = xs"
proof -
  have "take b (drop a xs) @ take c (drop (a + b) xs) @ drop (a + b + c) xs = drop a xs"
    by (metis add.commute append_take_drop_id drop_drop)
  then show ?thesis
    by (simp add: head_def iloc_def iloc_from_def)
qed

lemma row_with_priority: "map row (with_priority p a rows) = rows"
  by (simp add: with_priority_def comp_def)

lemma level_with_priority: "map priority_level (with_priority p a rows) = replicate (length rows) p"
  by (simp add: with_priority_def comp_def map_replicate_const)

lemma four_tiers_partition:
  assumes "A @ B @ C @ D = df"
  shows "is_partition
           [(''CRITICAL'', with_priority ''CRITICAL'' a1 A), (''HIGH'', with_priority ''HIGH'' a2 B),
            (''MEDIUM'', with_priority ''MEDIUM'' a3 C), (''LOW'', with_priority ''LOW'' a4 D)] df"
proof -
  have "length A + length B + length C + length D = length df"
    using assms by auto
  then show ?thesis
    using assms
    by (simp add: is_partition_def tier_def labels_def row_with_priority level_with_priority)
qed

lemma engine_partition:
  assumes "df \<noteq> []"
  shows "is_partition (categorize_medicines_by_priority df) df"
  using assms
  unfolding categorize_medicines_by_priority_def Let_def
  by (simp only: if_False four_tiers_partition [OF slices_append])

lemma priority_pct_simps:
  "priority_pct ''CRITICAL'' = 20 / 100"
  "priority_pct ''HIGH'' = 30 / 100"
  "priority_pct ''MEDIUM'' = 30 / 100"
  by (simp_all add: priority_pct_def PRIORITY_LEVELS_def)

lemma analyzer_partition:
  assumes "df \<noteq> []"
  shows "is_partition (categorize_by_priority df) df"
  using assms
  unfolding categorize_by_priority_def Let_def
  by (simp only: if_False four_tiers_partition [OF slices_append])

text \<open>
  C1. For every non-empty recommendation table, the four tiers produced by the priority
  categorization (of Engine.py and of the analyzer) partition the table: the dict has the
  keys CRITICAL, HIGH, MEDIUM, LOW; the tiers are consecutive slices which, put end to end
  in that order, give back the table, so every row lies in exactly one tier; every row
  carries the label of its tier; and the four sizes add up to the size of the table.
\<close>

theorem priority_tiers_partition:
  assumes "recommendations_df \<noteq> []"
  shows "is_partition (categorize_medicines_by_priority recommendations_df) recommendations_df
       \<and> is_partition (categorize_by_priority recommendations_df) recommendations_df"
  using engine_partition [OF assms] analyzer_partition [OF assms] by (rule conjI)

theorem priority_tiers_partition_witness:
  "[''A'', ''B'', ''C''] \<noteq> []
   \<and> is_partition (categorize_medicines_by_priority [''A'', ''B'', ''C'']) [''A'', ''B'', ''C'']
   \<and> is_partition (categorize_by_priority [''A'', ''B'', ''C'']) [''A'', ''B'', ''C'']"
  using priority_tiers_partition [of "[''A'', ''B'', ''C'']"] by simp

lemma bands_fit:
  "band_count n (20 / 100) + band_count n (30 / 100) + band_count n (30 / 100) < n
     \<longleftrightarrow> 4 \<le> n"
proof -
  have "max (n div 5) 1 + max (3 * n div 10) 1 + max (3 * n div 10) 1 < n \<longleftrightarrow> 4 \<le> n"
    by (cases "n < 5"; cases "n < 4") (auto simp: max_def)
  then show ?thesis by (simp only: band_count_20 band_count_30)
qed

lemma tier_critical:
  "df \<noteq> [] \<Longrightarrow> tier (categorize_medicines_by_priority df) ''CRITICAL''
     = Some (take (band_count (length df) (20 / 100)) df)"
  unfolding categorize_medicines_by_priority_def Let_def tier_def head_def
  by (simp add: row_with_priority)

lemma tier_high:
  "df \<noteq> [] \<Longrightarrow> tier (categorize_medicines_by_priority df) ''HIGH''
     = Some (take (band_count (length df) (30 / 100))
               (drop (band_count (length df) (20 / 100)) df))"
  unfolding categorize_medicines_by_priority_def Let_def tier_def iloc_def
  by (simp add: row_with_priority)

lemma tier_medium:
  "df \<noteq> [] \<Longrightarrow> tier (categorize_medicines_by_priority df) ''MEDIUM''
     = Some (take (band_count (length df) (30 / 100))
               (drop (band_count (length df) (20 / 100) + band_count (length df) (30 / 100)) df))"
  unfolding categorize_medicines_by_priority_def Let_def tier_def iloc_def
  by (simp add: row_with_priority)

lemma tier_low:
  "df \<noteq> [] \<Longrightarrow> tier (categorize_medicines_by_priority df) ''LOW''
     = Some (drop (band_count (length df) (20 / 100) + band_count (length df) (30 / 100)
                   + band_count (length df) (30 / 100)) df)"
  unfolding categorize_medicines_by_priority_def Let_def tier_def iloc_from_def
  by (simp add: row_with_priority)

lemma inhabited_iff:
  assumes "df \<noteq> []"
  shows "all_tiers_inhabited (categorize_medicines_by_priority df) \<longleftrightarrow> 4 \<le> length df"
proof -
  let ?n = "length df"
  let ?a = "band_count ?n (20 / 100)"
  let ?b = "band_count ?n (30 / 100)"
  have a: "1 \<le> ?a" and b: "1 \<le> ?b" by (rule band_count_pos)+
  have n: "1 \<le> ?n" using assms by (cases df) auto
  have "all_tiers_inhabited (categorize_medicines_by_priority df) \<longleftrightarrow>
        1 \<le> min ?n ?a \<and> 1 \<le> min (?n - ?a) ?b \<and> 1 \<le> min (?n - (?a + ?b)) ?b
        \<and> 1 \<le> ?n - (?a + ?b + ?b)"
    unfolding all_tiers_inhabited_def inhabited_def
    by (simp only: tier_critical [OF assms] tier_high [OF assms] tier_medium [OF assms]
          tier_low [OF assms] option.case length_take length_drop)
  also have "\<dots> \<longleftrightarrow> ?a + ?b + ?b < ?n"
    using a b n by linarith
  finally show ?thesis by (simp only: bands_fit)
qed

lemma critical_inhabited:
  assumes "df \<noteq> []"
  shows "inhabited (categorize_medicines_by_priority df) ''CRITICAL''"
proof -
  have "1 \<le> band_count (length df) (20 / 100)" by (rule band_count_pos)
  moreover have "1 \<le> length df" using assms by (cases df) auto
  ultimately show ?thesis
    unfolding inhabited_def by (simp only: tier_critical [OF assms] option.case length_take)
qed

lemma tier_keys:
  "df \<noteq> [] \<Longrightarrow>
     map fst (categorize_medicines_by_priority df) = [''CRITICAL'', ''HIGH'', ''MEDIUM'', ''LOW'']"
  by (simp add: categorize_medicines_by_priority_def Let_def)

text \<open>
  C2, as the claim states it, fails: with exactly one medicine the band sizes are 1, 1
  and 1, but the slices after the first reach beyond the end of the table and are empty.
  CRITICAL holds the medicine; HIGH, MEDIUM and LOW have no member.
\<close>

theorem single_medicine_tiers_counterexample:
  "\<not> all_tiers_inhabited (categorize_medicines_by_priority [''PARA 500''])"
  by (simp add: all_tiers_inhabited_def inhabited_def categorize_medicines_by_priority_def
        Let_def tier_def row_with_priority head_def iloc_def iloc_from_def band_count_def
        py_int_def)

text \<open>
  C2, amended. For every non-empty recommendation table the categorization produces the
  four keys CRITICAL, HIGH, MEDIUM, LOW; each band size is floor-rounded and at least 1;
  the CRITICAL tier has at least one member; and all four tiers have at least one member
  exactly when the table has at least 4 medicines.
\<close>

theorem tiers_inhabited_from_four:
  assumes "recommendations_df \<noteq> []"
  shows "map fst (categorize_medicines_by_priority recommendations_df)
           = [''CRITICAL'', ''HIGH'', ''MEDIUM'', ''LOW'']
       \<and> 1 \<le> band_count (length recommendations_df) (20 / 100)
       \<and> 1 \<le> band_count (length recommendations_df) (30 / 100)
       \<and> inhabited (categorize_medicines_by_priority recommendations_df) ''CRITICAL''
       \<and> (all_tiers_inhabited (categorize_medicines_by_priority recommendations_df)
            \<longleftrightarrow> 4 \<le> length recommendations_df)"
  using tier_keys [OF assms] critical_inhabited [OF assms] inhabited_iff [OF assms]
    band_count_pos [of "length recommendations_df" "20 / 100"]
    band_count_pos [of "length recommendations_df" "30 / 100"]
  by blast

theorem tiers_inhabited_from_four_witness:
  "[''A'', ''B'', ''C'', ''D''] \<noteq> []
   \<and> all_tiers_inhabited (categorize_medicines_by_priority [''A'', ''B'', ''C'', ''D''])"
  using tiers_inhabited_from_four [of "[''A'', ''B'', ''C'', ''D'']"] by simp

section \<open>Properties of the row sanitizer\<close>

lemma retained_cells:
  "retained lib r = Some (d, n, q, p) \<Longrightarrow>
     q > 0 \<and> p > 0 \<and> csv_date r = Some d \<and> csv_medicine_name r = Some n
     \<and> to_numeric lib (csv_quantity r) = Some q \<and> to_numeric lib (csv_unit_price r) = Some p"
  by (auto simp: retained_def split: option.splits if_splits)

lemma collect_Inr: "collect xs = Inr vs \<Longrightarrow> xs = map Inr vs"
  by (induction xs arbitrary: vs) (auto split: sum.splits)

lemma clean_data_row:
  assumes "clean_data lib df = Inr rows" and "x \<in> set rows"
  shows "\<exists>r cells. r \<in> set df \<and> retained lib r = Some cells \<and> clean_one lib r cells = Inr x"
proof -
  from assms(1) have
    "concat (map (\<lambda>r. case retained lib r of None \<Rightarrow> []
                      | Some cells \<Rightarrow> [clean_one lib r cells]) df) = map Inr rows"
    unfolding clean_data_def by (rule collect_Inr)
  with assms(2) have
    "Inr x \<in> set (concat (map (\<lambda>r. case retained lib r of None \<Rightarrow> []
                                 | Some cells \<Rightarrow> [clean_one lib r cells]) df))"
    by simp
  then show ?thesis
    by (auto split: option.splits) metis
qed

text \<open>What the sanitizer does guarantee: every row that it returns has a positive quantity
  and a positive unit price, and comes from a raw row with a date text and a name.\<close>

lemma clean_data_positive:
  assumes "clean_data lib df = Inr rows" and "x \<in> set rows"
  shows "c_quantity x > 0 \<and> c_unit_price x > 0"
proof -
  obtain r cells where "retained lib r = Some cells" and "clean_one lib r cells = Inr x"
    using clean_data_row [OF assms] by blast
  then show ?thesis
    by (cases cells) (auto simp: clean_one_def dest!: retained_cells split: sum.splits)
qed

lemma clean_data_date:
  assumes "clean_data lib df = Inr rows" and "x \<in> set rows"
  shows "\<exists>r d. r \<in> set df \<and> csv_date r = Some d \<and> c_date x = read_datetime lib d"
proof -
  obtain r cells where "r \<in> set df" and "retained lib r = Some cells"
    and "clean_one lib r cells = Inr x"
    using clean_data_row [OF assms] by blast
  then show ?thesis
    by (cases cells) (auto simp: clean_one_def to_datetime_def dest!: retained_cells
        split: sum.splits)
qed

text \<open>The rows that are dropped: a missing critical cell, a number that cannot be read, a
  non-positive quantity or unit price.\<close>

lemma retained_None:
  "csv_date r = None \<or> csv_medicine_name r = None
     \<or> to_numeric lib (csv_quantity r) = None \<or> to_numeric lib (csv_unit_price r) = None
     \<or> (\<exists>q. to_numeric lib (csv_quantity r) = Some q \<and> q \<le> 0)
     \<or> (\<exists>p. to_numeric lib (csv_unit_price r) = Some p \<and> p \<le> 0)
   \<Longrightarrow> retained lib r = None"
  by (auto simp: retained_def to_numeric_def split: option.splits cell.splits)

text \<open>
  C3. The claim: every row retained by the sanitizer has quantity > 0, unit price > 0 and
  a non-null date, and a row whose date text fails to parse (and coerces to null) is
  dropped. On the code, the rows are dropped for a missing date before the date column is
  converted, and after the conversion only the two numeric columns are checked again: a
  row whose date text cannot be read is retained, with a null date. Evaluated here on one
  row with the date text \<^verbatim>\<open>not-a-date\<close>, quantity 10 and unit price 5.
\<close>

theorem clean_data_keeps_unreadable_date:
  "clean_data plain_readers
     [\<lparr>csv_date = Some ''not-a-date'', csv_time = Some ''10:00:00'',
       csv_invoice_id = Some ''INV1'', csv_medicine_name = Some ''PARA 500'',
       csv_generic_name = None, csv_prescription_required = Num 0,
       csv_quantity = Num 10, csv_unit_price = Num 5\<rparr>]
   = Inr [\<lparr>c_date = None, c_time = Some ''10:00:00'', c_invoice_id = Some ''INV1'',
           c_medicine_name = ''PARA 500'', c_generic_name = None,
           c_prescription_required = 0, c_quantity = 10, c_unit_price = 5,
           c_medicine_name_clean = ''PARA 500'', c_generic_name_clean = ''UNKNOWN'',
           c_total_sales = 50\<rparr>]"
  by code_simp

section \<open>Properties of the recommendation table\<close>

subsection \<open>Rank and fast-mover columns\<close>

lemma rank_flag_length: "length (add_rank_and_flag q df) = length df"
  by (simp add: add_rank_and_flag_def del: upt_Suc)

lemma rank_flag_nth:
  assumes "i < length df"
  shows "add_rank_and_flag q df ! i =
     \<lparr>medicine_name = medicine_name (df ! i),
      last_season_sales = last_season_sales (df ! i),
      total_revenue = total_revenue (df ! i),
      unique_orders = unique_orders (df ! i),
      avg_unit_price = avg_unit_price (df ! i),
      suggested_stock_quantity = suggested_stock_quantity (df ! i),
      daily_avg_sales = daily_avg_sales (df ! i),
      rank = i + 1,
      is_fast_mover =
        ge_threshold (daily_avg_sales (df ! i)) (quantile (map daily_avg_sales df) q)\<rparr>"
  using assms by (simp add: add_rank_and_flag_def Let_def del: upt_Suc)

lemma rank_flag_sales: "map last_season_sales (add_rank_and_flag q df) = map last_season_sales df"
  by (rule nth_equalityI) (simp_all add: rank_flag_length rank_flag_nth)





subsection \<open>The quantile lies below the maximum\<close>




subsection \<open>Grouping and sorting\<close>

lemma group_keys_set: "set (group_keys xs) = medicine_name_clean ` set xs"
  by (simp add: group_keys_def)

lemma group_keys_distinct: "distinct (group_keys xs)"
  by (simp add: group_keys_def)


lemma groupby_names: "map medicine_name (groupby_agg xs) = group_keys xs"
  by (simp add: groupby_agg_def agg_group_def comp_def)



lemma group_sum:
  assumes "distinct ks" and "g ` set xs \<subseteq> set ks"
  shows "(\<Sum>k\<leftarrow>ks. sum_list (map f (filter (\<lambda>t. g t = k) xs)))
           = sum_list (map (f :: 'a \<Rightarrow> int) xs)"
  using assms(2)
proof (induction xs)
  case Nil
  then show ?case by simp
next
  case (Cons x xs)
  have "(\<Sum>k\<leftarrow>ks. sum_list (map f (filter (\<lambda>t. g t = k) (x # xs))))
        = (\<Sum>k\<leftarrow>ks. (if g x = k then f x else 0)
                    + sum_list (map f (filter (\<lambda>t. g t = k) xs)))"
    by (rule arg_cong [where f = sum_list]) (rule map_cong, auto)
  also have "\<dots> = (\<Sum>k\<leftarrow>ks. if g x = k then f x else 0)
                  + (\<Sum>k\<leftarrow>ks. sum_list (map f (filter (\<lambda>t. g t = k) xs)))"
    by (simp add: sum_list_addf)
  also have "(\<Sum>k\<leftarrow>ks. if g x = k then f x else 0) = f x"
    using assms(1) Cons.prems by (simp add: sum_list_distinct_conv_sum_set)
  finally show ?case using Cons by simp
qed

lemma groupby_sum: "sum_list (map last_season_sales (groupby_agg xs)) = sum_list (map quantity xs)"
proof -
  have "map last_season_sales (groupby_agg xs)
        = map (\<lambda>k. sum_list (map quantity (filter (\<lambda>t. medicine_name_clean t = k) xs)))
            (group_keys xs)"
    by (simp add: groupby_agg_def agg_group_def group_of_def comp_def)
  moreover have "medicine_name_clean ` set xs \<subseteq> set (group_keys xs)"
    by (simp add: group_keys_set)
  ultimately show ?thesis by (simp add: group_sum group_keys_distinct)
qed

lemma add_stock_sales: "map last_season_sales (map (add_stock b d) xs) = map last_season_sales xs"
  by (simp add: add_stock_def comp_def)


lemma sort_sum:
  "sum_list (map (f :: 'a \<Rightarrow> int) (sort_values_desc key xs)) = sum_list (map f xs)"
proof -
  have "mset (map f (sort_values_desc key xs)) = mset (map f xs)"
    by (simp add: sort_values_desc_def)
  then show ?thesis by (metis sum_mset_sum_list)
qed


lemma heuristic_unfold:
  assumes "filter (\<lambda>t. Season t = s) df \<noteq> []"
  shows "get_heuristic_recommendations df s b
         = add_rank_and_flag (75 / 100)
             (sort_values_desc last_season_sales
                (map (add_stock b (days_in_season_of (filter (\<lambda>t. Season t = s) df)))
                   (groupby_agg (filter (\<lambda>t. Season t = s) df))))"
  using assms by (simp add: get_heuristic_recommendations_def Let_def)

lemma heuristic_sum:
  "sum_list (map last_season_sales (get_heuristic_recommendations df s b))
     = sum_list (map quantity (filter (\<lambda>t. Season t = s) df))"
proof -
  have "sum_list (map last_season_sales (map (add_stock b d) (groupby_agg xs)))
        = sum_list (map quantity xs)" for d xs
    by (simp only: add_stock_sales groupby_sum)
  then show ?thesis
    by (simp add: get_heuristic_recommendations_def Let_def rank_flag_sales sort_sum
        del: map_map)
qed

subsection \<open>Order, ties and rank\<close>









subsection \<open>The rows of the seasonal result\<close>

lemma seasonal_rows_unfold:
  "seasonal_rows df s b =
     (let recs = get_heuristic_recommendations df s b; n = length recs
      in map (\<lambda>(i, r). add_priority
                  (priority_at (band_count n (20 / 100)) (band_count n (30 / 100))
                     (band_count n (30 / 100)) i) r)
           (zip [0..<n] recs))"
proof (cases "filter (\<lambda>t. Season t = s) df = []")
  case True
  then show ?thesis
    by (simp add: seasonal_rows_def get_seasonal_recommendations_def
        get_heuristic_recommendations_def)
next
  case False
  then have "df \<noteq> []" by auto
  with False show ?thesis
    by (simp add: seasonal_rows_def get_seasonal_recommendations_def Let_def
        heuristic_unfold [OF False])
qed

lemma seasonal_rows_length:
  "length (seasonal_rows df s b) = length (get_heuristic_recommendations df s b)"
  by (simp add: seasonal_rows_unfold Let_def)

lemma seasonal_rows_nth:
  assumes "i < length (get_heuristic_recommendations df s b)"
  shows "\<exists>p. seasonal_rows df s b ! i
              = add_priority p (get_heuristic_recommendations df s b ! i)"
  using assms by (auto simp: seasonal_rows_unfold Let_def)

lemma seasonal_rows_sales:
  "map last_season_sales (seasonal_rows df s b)
     = map last_season_sales (get_heuristic_recommendations df s b)"
proof (rule nth_equalityI)
  show "length (map last_season_sales (seasonal_rows df s b))
        = length (map last_season_sales (get_heuristic_recommendations df s b))"
    by (simp add: seasonal_rows_length)
next
  fix i assume "i < length (map last_season_sales (seasonal_rows df s b))"
  then have i: "i < length (get_heuristic_recommendations df s b)"
    by (simp add: seasonal_rows_length)
  then obtain p where
    "seasonal_rows df s b ! i = add_priority p (get_heuristic_recommendations df s b ! i)"
    using seasonal_rows_nth by blast
  then show "map last_season_sales (seasonal_rows df s b) ! i
             = map last_season_sales (get_heuristic_recommendations df s b) ! i"
    using i by (simp add: seasonal_rows_length add_priority_def)
qed


subsection \<open>The buffered stock quantity\<close>










text \<open>
  C6. For every table of sales and every season, the total quantities of the seasonal
  aggregates, one for each distinct medicine key of the season, add up to the sum of the
  quantities of the sales of that season; so do the sales columns of the recommendation
  table of Engine.py and of the seasonal result of the analysis engine.
\<close>

theorem seasonal_quantity_preserved:
  "sum_list (map last_season_sales (groupby_agg (filter (\<lambda>t. Season t = target_season) df)))
     = sum_list (map quantity (filter (\<lambda>t. Season t = target_season) df))
   \<and> distinct (map medicine_name (groupby_agg (filter (\<lambda>t. Season t = target_season) df)))
   \<and> set (map medicine_name (groupby_agg (filter (\<lambda>t. Season t = target_season) df)))
       = medicine_name_clean ` set (filter (\<lambda>t. Season t = target_season) df)
   \<and> sum_list (map last_season_sales (get_heuristic_recommendations df target_season buffer))
       = sum_list (map quantity (filter (\<lambda>t. Season t = target_season) df))
   \<and> sum_list (map last_season_sales (seasonal_rows df target_season buffer))
       = sum_list (map quantity (filter (\<lambda>t. Season t = target_season) df))"
  by (simp only: groupby_sum groupby_names group_keys_distinct group_keys_set heuristic_sum
      seasonal_rows_sales simp_thms)

theorem seasonal_quantity_preserved_witness:
  "sum_list (map quantity (filter (\<lambda>t. Season t = ''Summer'') example_sales)) = 70
   \<and> sum_list (map last_season_sales
        (groupby_agg (filter (\<lambda>t. Season t = ''Summer'') example_sales))) = 70
   \<and> sum_list (map last_season_sales
        (get_heuristic_recommendations example_sales ''Summer'' default_buffer)) = 70
   \<and> sum_list (map last_season_sales
        (seasonal_rows example_sales ''Summer'' default_buffer)) = 70"
proof -
  have "sum_list (map quantity (filter (\<lambda>t. Season t = ''Summer'') example_sales)) = 70"
    by (simp add: example_sales_def)
  then show ?thesis
    using seasonal_quantity_preserved [of "''Summer''" example_sales default_buffer]
    by presburger
qed

subsection \<open>Fast movers\<close>









section \<open>Properties of the forecasting orchestrator\<close>

text \<open>The number of points of the weekly series: the weeks from the first closing Monday
  to the last.\<close>

lemma resample_length:
  "length (resample_W_Mon_sum series) =
     (case map (\<lambda>(d, q). week_label d) series of
        [] \<Rightarrow> 0
      | l # ls \<Rightarrow> nat ((fold max ls l - fold min ls l) div 7) + 1)"
  by (simp add: resample_W_Mon_sum_def Let_def split: list.splits del: upt_Suc)


text \<open>With the libraries available, at least 24 dated rows and at least 24 weekly points,
  the result is what the fit gives: the forecast, or the failure with the message of the
  exception.\<close>

lemma sarima_fitted:
  assumes "FORECASTING_AVAILABLE lib" and "24 \<le> length df"
    and "24 \<le> length (resample_W_Mon_sum df)"
  shows "generate_sarima_forecast lib df weeks
           = (case SARIMAX lib (resample_W_Mon_sum df) weeks of
                Inl e \<Rightarrow> Failure (''SARIMA forecast failed: '' @ e)
              | Inr f \<Rightarrow> Success f)"
proof -
  have "df \<noteq> []" using assms(2) by auto
  then show ?thesis
    using assms
    by (simp add: generate_sarima_forecast_def try_except_def Let_def split: sum.splits)
qed

lemma prophet_fitted:
  assumes "FORECASTING_AVAILABLE lib" and "30 \<le> length df"
  shows "generate_prophet_forecast lib df months
           = (case Prophet lib df (months * 30) of
                Inl e \<Rightarrow> Failure (''Prophet forecast failed: '' @ e)
              | Inr f \<Rightarrow> Success f)"
proof -
  have "df \<noteq> []" using assms(2) by auto
  then show ?thesis
    using assms
    by (simp add: generate_prophet_forecast_def try_except_def split: sum.splits)
qed


lemma prophet_indep:
  "generate_prophet_forecast (lib\<lparr>SARIMAX := s'\<rparr>) df m = generate_prophet_forecast lib df m"
  by (simp add: generate_prophet_forecast_def)

lemma sarima_indep:
  "generate_sarima_forecast (lib\<lparr>Prophet := p'\<rparr>) df w = generate_sarima_forecast lib df w"
  by (simp add: generate_sarima_forecast_def Let_def)






text \<open>
  C8. An exception raised by the fit of either model is caught and turned into a failure
  result that carries its message: the functions return a result value in every case.
  The two forecasts of a medicine are computed one after the other from the same table;
  the result of one model is the same whatever the library of the other model does, also
  when it raises.
\<close>

theorem fit_exceptions_are_caught:
  "(FORECASTING_AVAILABLE lib \<and> 24 \<le> length df \<and> 24 \<le> length (resample_W_Mon_sum df)
      \<and> SARIMAX lib (resample_W_Mon_sum df) weeks = Inl e
    \<longrightarrow> generate_sarima_forecast lib df weeks = Failure (''SARIMA forecast failed: '' @ e))
   \<and> (FORECASTING_AVAILABLE lib \<and> 30 \<le> length df \<and> Prophet lib df (months * 30) = Inl e
    \<longrightarrow> generate_prophet_forecast lib df months = Failure (''Prophet forecast failed: '' @ e))
   \<and> prophet_forecast
         (process_medicine_forecasts (lib\<lparr>SARIMAX := s'\<rparr>) medicine_id name sales_data)
       = prophet_forecast (process_medicine_forecasts lib medicine_id name sales_data)
   \<and> sarima_forecast
         (process_medicine_forecasts (lib\<lparr>Prophet := p'\<rparr>) medicine_id name sales_data)
       = sarima_forecast (process_medicine_forecasts lib medicine_id name sales_data)
   \<and> sarima_forecast (process_medicine_forecasts lib medicine_id name sales_data)
       = (if prepare_time_series_data sales_data = [] then Failure ''No sales data available''
          else generate_sarima_forecast lib (prepare_time_series_data sales_data) 12)
   \<and> prophet_forecast (process_medicine_forecasts lib medicine_id name sales_data)
       = (if prepare_time_series_data sales_data = [] then Failure ''No sales data available''
          else generate_prophet_forecast lib (prepare_time_series_data sales_data) 3)"
proof (intro conjI impI)
  assume "FORECASTING_AVAILABLE lib \<and> 24 \<le> length df
      \<and> 24 \<le> length (resample_W_Mon_sum df)
      \<and> SARIMAX lib (resample_W_Mon_sum df) weeks = Inl e"
  then show "generate_sarima_forecast lib df weeks
             = Failure (''SARIMA forecast failed: '' @ e)"
    by (simp add: sarima_fitted)
next
  assume "FORECASTING_AVAILABLE lib \<and> 30 \<le> length df
      \<and> Prophet lib df (months * 30) = Inl e"
  then show "generate_prophet_forecast lib df months
             = Failure (''Prophet forecast failed: '' @ e)"
    by (simp add: prophet_fitted)
qed (simp_all add: process_medicine_forecasts_def Let_def prophet_indep sarima_indep)

theorem fit_exceptions_are_caught_witness:
  "sarima_forecast (process_medicine_forecasts example_libraries 1 ''PARA 500'' monthly_sales)
     = Failure ''SARIMA forecast failed: LU decomposition error.''
   \<and> prophet_forecast
       (process_medicine_forecasts example_libraries 1 ''PARA 500'' monthly_sales)
     = Success (replicate 90 5)"
proof -
  let ?df = "prepare_time_series_data monthly_sales"
  have ne: "?df \<noteq> []" by code_simp
  have a: "FORECASTING_AVAILABLE example_libraries" by (simp add: example_libraries_def)
  have l1: "24 \<le> length ?df" by code_simp
  have l2: "24 \<le> length (resample_W_Mon_sum ?df)"
    unfolding resample_length by code_simp
  have l3: "30 \<le> length ?df" by code_simp
  have s: "SARIMAX example_libraries (resample_W_Mon_sum ?df) 12
           = Inl ''LU decomposition error.''"
    by (simp add: example_libraries_def)
  have p: "generate_prophet_forecast example_libraries ?df 3 = Success (replicate 90 5)"
    using a l3 by (simp add: prophet_fitted) (simp add: example_libraries_def)
  note inst = fit_exceptions_are_caught [of example_libraries ?df 12
      "''LU decomposition error.''" 3 _ 1 "''PARA 500''" monthly_sales]
  have "generate_sarima_forecast example_libraries ?df 12
        = Failure (''SARIMA forecast failed: '' @ ''LU decomposition error.'')"
    using inst a l1 l2 s by blast
  then show ?thesis using inst ne p by simp
qed

section \<open>The two priority classifications\<close>

lemma example_tiers:
  "rank_priority_of (categorize_medicines_by_priority
       (get_heuristic_recommendations example_sales ''Summer'' default_buffer)) ''PARA 500''
     = Some ''HIGH''
   \<and> score_priority_of (get_enhanced_medicines
       (as_sold (get_heuristic_recommendations example_sales ''Summer'' default_buffer)))
       ''PARA 500''
     = Some ''CRITICAL''"
  by code_simp

text \<open>
  C9. The rank-based slicing of Engine.py and the score-based thresholds of the enhanced
  medicines view are not equivalent: there is a recommendation table and a medicine in it
  to which the two give different tiers. In the summer of the example, PARA 500 is second
  by quantity (30 against 40), hence HIGH by rank, and first by revenue (150 against 80),
  with score 0.9, hence critical by score. The tiers are compared in upper case.
\<close>

theorem priority_algorithms_differ:
  "\<exists>(recs :: recommendation list) m rank_tier score_tier.
      rank_priority_of (categorize_medicines_by_priority recs) m = Some rank_tier
    \<and> score_priority_of (get_enhanced_medicines (as_sold recs)) m = Some score_tier
    \<and> rank_tier \<noteq> score_tier"
proof -
  have "''HIGH'' \<noteq> ''CRITICAL''" by simp
  with example_tiers show ?thesis by blast
qed

end
